theory Spec2Isabelle
  imports Complex_Main
begin

section \<open>The mock database schema of \<open>src/index.tsx\<close>\<close>

text \<open>
  The three interfaces \<open>Book\<close>, \<open>Student\<close> and \<open>Transaction\<close> become records. The field
  \<open>id\<close> of each interface is suffixed with the interface's name, since \<open>id\<close> is a constant
  of HOL. Modelling decisions:
  \<^item> a \<open>number\<close> holding a count of copies or a fine is an \<open>int\<close>, its value when it
    is integral; \<open>NaN\<close>, the infinities and fractions are outside the model. A \<open>number\<close> is
    a double, so \<open>--\<close> and \<open>++\<close> on a count round their result (\<open>to_double\<close> below);
  \<^item> an ISO timestamp string is represented by its time value, the number of milliseconds
    since the epoch, as an \<open>int\<close>: \<open>toISOString\<close> and \<open>new Date(string)\<close> are inverse to each
    other on time values, and the code only compares and subtracts time values;
  \<^item> the optional field \<open>returnDate?\<close> is an \<open>option\<close>.
\<close>

record Book =
  id_Book :: string
  title :: string
  author :: string
  isbn :: string
  category :: string
  totalCopies :: int
  availableCopies :: int
  addedAt :: int

record Student =
  id_Student :: string
  name :: string
  rollNo :: string
  department :: string
  email :: string
  joinedAt :: int

datatype status = ISSUED | RETURNED

record Transaction =
  id_Transaction :: string
  bookId :: string
  studentId :: string
  issueDate :: int
  dueDate :: int
  returnDate :: "int option"
  status :: status
  fine :: int

text \<open>
  \<open>localStorage\<close> under the three keys of \<open>STORAGE_KEYS\<close>. \<open>getBooks\<close>, \<open>getStudents\<close> and
  \<open>getTransactions\<close> parse the stored JSON and read a missing key as the empty array, and
  every write stores the whole array again, so the storage is the three lists.
\<close>

record storage =
  books :: "Book list"
  students :: "Student list"
  transactions :: "Transaction list"

text \<open>
  What the platform returns during one call of a service method. Every method calls each
  of \<open>crypto.randomUUID()\<close>, \<open>new Date()\<close> and \<open>Date.now()\<close> at most once; \<open>issueBook\<close>
  calls both \<open>new Date()\<close> (for \<open>issueDate\<close>) and, after it, \<open>Date.now()\<close> (for \<open>dueDate\<close>),
  which are two readings of the clock.
\<close>

record env =
  randomUUID :: string
  date_new :: int
  date_now :: int

text \<open>The return types \<open>{ success, message }\<close> and \<open>{ success, message, transaction? }\<close>.\<close>

record outcome =
  success :: bool
  message :: string

record issue_outcome = outcome +
  transaction :: "Transaction option"

section \<open>Library functions of JavaScript\<close>

text \<open>\<open>Array.prototype.findIndex\<close>: the first index whose element satisfies the predicate;
  the result \<open>-1\<close> of the source is \<open>None\<close>.\<close>

fun findIndex :: "('a \<Rightarrow> bool) \<Rightarrow> 'a list \<Rightarrow> nat option" where
  "findIndex P [] = None"
| "findIndex P (x # xs) = (if P x then Some 0 else map_option Suc (findIndex P xs))"

text \<open>
  Arithmetic on a \<open>number\<close> is arithmetic on doubles: the exact result is rounded to the
  nearest double, a tie to the one with the even significand. Every integer up to \<open>2^53\<close>
  in absolute value is a double; from there on the doubles are \<open>2\<close> apart, then \<open>4\<close>, and
  so on. \<open>ulp n\<close> is the distance between the doubles at the magnitude \<open>n\<close>, and
  \<open>to_double x\<close> is the double that an integer \<open>x\<close> is rounded to (magnitudes beyond the
  largest double, where the source has \<open>Infinity\<close>, are outside the model).
\<close>

function ulp :: "nat \<Rightarrow> int" where
  "ulp n = (if n < 9007199254740992 then 1 else 2 * ulp (n div 2))"
  by pat_completeness auto
termination
  by (relation "measure (\<lambda>n. n)") auto

declare ulp.simps [simp del]

definition to_double :: "int \<Rightarrow> int" where
  "to_double x =
     (let m = ulp (nat \<bar>x\<bar>); q = x div m; r = x mod m
      in if 2 * r < m \<or> (2 * r = m \<and> even q) then q * m else (q + 1) * m)"

text \<open>The decimal rendering of an integral number in a template literal.\<close>

definition digit_char :: "nat \<Rightarrow> char" where
  "digit_char d = ''0123456789'' ! d"

function string_of_nat :: "nat \<Rightarrow> string" where
  "string_of_nat n =
     (if n < 10 then [digit_char n] else string_of_nat (n div 10) @ [digit_char (n mod 10)])"
  by pat_completeness auto
termination
  by (relation "measure (\<lambda>n. n)") auto

declare string_of_nat.simps [simp del]

definition string_of_int :: "int \<Rightarrow> string" where
  "string_of_int i = (if i < 0 then CHR ''-'' # string_of_nat (nat (- i)) else string_of_nat (nat i))"

section \<open>\<open>LibraryService\<close>\<close>

text \<open>
  \<open>addBook\<close> takes an object without \<open>id\<close>, \<open>availableCopies\<close> and \<open>addedAt\<close> and spreads
  it into the new Book before setting these three fields; the model takes a Book and
  overwrites the three fields. It returns the new Book. There is no check of any field.
\<close>

definition addBook :: "Book \<Rightarrow> env \<Rightarrow> storage \<Rightarrow> Book \<times> storage" where
  "addBook book e s =
     (let newBook = book\<lparr>id_Book := randomUUID e,
                         availableCopies := totalCopies book,
                         addedAt := date_new e\<rparr>
      in (newBook, s\<lparr>books := books s @ [newBook]\<rparr>))"

definition addStudent :: "Student \<Rightarrow> env \<Rightarrow> storage \<Rightarrow> Student \<times> storage" where
  "addStudent student e s =
     (let newStudent = student\<lparr>id_Student := randomUUID e, joinedAt := date_new e\<rparr>
      in (newStudent, s\<lparr>students := students s @ [newStudent]\<rparr>))"

text \<open>
  \<open>issueBook\<close> looks the Book up by its id, rejects a missing Book and a Book without an
  available copy, and otherwise decrements the count (\<open>availableCopies--\<close>, a subtraction
  of doubles), appends the new Transaction and writes both arrays. It does not read the
  students.
\<close>

definition issueBook :: "string \<Rightarrow> string \<Rightarrow> env \<Rightarrow> storage \<Rightarrow> issue_outcome \<times> storage" where
  "issueBook bookId' studentId' e s =
     (case findIndex (\<lambda>b. id_Book b = bookId') (books s) of
        None \<Rightarrow> (\<lparr>success = False, message = ''Book not found'', transaction = None\<rparr>, s)
      | Some bookIndex \<Rightarrow>
          if availableCopies (books s ! bookIndex) \<le> 0
          then (\<lparr>success = False, message = ''Book not available'', transaction = None\<rparr>, s)
          else
            let books' = (books s)[bookIndex := (books s ! bookIndex)
                             \<lparr>availableCopies := to_double (availableCopies (books s ! bookIndex) - 1)\<rparr>];
                txn = \<lparr>id_Transaction = randomUUID e,
                       bookId = bookId',
                       studentId = studentId',
                       issueDate = date_new e,
                       dueDate = date_now e + 7 * 24 * 60 * 60 * 1000,
                       returnDate = None,
                       status = ISSUED,
                       fine = 0\<rparr>;
                transactions' = transactions s @ [txn]
            in (\<lparr>success = True, message = ''Book issued successfully'', transaction = Some txn\<rparr>,
                s\<lparr>books := books', transactions := transactions'\<rparr>))"

text \<open>
  \<open>returnBook\<close>. The difference of the two time values and the quotient
  \<open>diffTime / (1000 * 60 * 60 * 24)\<close> are exact here and operations of doubles in the
  source; \<open>Math.ceil\<close> of the double quotient is the ceiling of the exact quotient for every
  span of time below \<open>2^53\<close> milliseconds (about 285000 years), which is every span between a
  due date that \<open>issueBook\<close> wrote and a reading of a real clock. The increment
  \<open>availableCopies++\<close> is an addition of doubles.
\<close>

definition returnBook :: "string \<Rightarrow> env \<Rightarrow> storage \<Rightarrow> outcome \<times> storage" where
  "returnBook transactionId e s =
     (case findIndex (\<lambda>t. id_Transaction t = transactionId) (transactions s) of
        None \<Rightarrow> (\<lparr>success = False, message = ''Transaction not found''\<rparr>, s)
      | Some txnIndex \<Rightarrow>
          if status (transactions s ! txnIndex) = RETURNED
          then (\<lparr>success = False, message = ''Already returned''\<rparr>, s)
          else
            let txn = transactions s ! txnIndex;
                returnDate' = date_new e;
                dueDate' = dueDate txn;
                fine' = (if returnDate' > dueDate'
                         then let diffTime = \<bar>returnDate' - dueDate'\<bar>;
                                  diffDays = \<lceil>real_of_int diffTime / (1000 * 60 * 60 * 24)\<rceil>
                              in diffDays * 1
                         else 0);
                txn' = txn\<lparr>returnDate := Some returnDate', status := RETURNED, fine := fine'\<rparr>;
                transactions' = (transactions s)[txnIndex := txn'];
                books' = (case findIndex (\<lambda>b. id_Book b = bookId txn') (books s) of
                            None \<Rightarrow> books s
                          | Some bookIndex \<Rightarrow>
                              (books s)[bookIndex := (books s ! bookIndex)
                                 \<lparr>availableCopies := to_double (availableCopies (books s ! bookIndex) + 1)\<rparr>])
            in (\<lparr>success = True, message = ''Book returned. Fine: $'' @ string_of_int fine'\<rparr>,
                s\<lparr>books := books', transactions := transactions'\<rparr>))"

text \<open>\<open>deleteBook\<close> and \<open>deleteStudent\<close> return nothing (\<open>void\<close>) and never throw.\<close>

definition deleteBook :: "string \<Rightarrow> storage \<Rightarrow> storage" where
  "deleteBook i s = s\<lparr>books := filter (\<lambda>b. id_Book b \<noteq> i) (books s)\<rparr>"

definition deleteStudent :: "string \<Rightarrow> storage \<Rightarrow> storage" where
  "deleteStudent i s = s\<lparr>students := filter (\<lambda>st. id_Student st \<noteq> i) (students s)\<rparr>"

section \<open>Sequences of calls\<close>

text \<open>
  The six methods that write to the storage, as the handlers of the application call
  them, with what each call returns.
\<close>

datatype op =
    AddBook Book
  | AddStudent Student
  | IssueBook string string
  | ReturnBook string
  | DeleteBook string
  | DeleteStudent string

datatype response =
    NewBook Book
  | NewStudent Student
  | Issued issue_outcome
  | Returned outcome
  | Void

fun exec :: "op \<Rightarrow> env \<Rightarrow> storage \<Rightarrow> response \<times> storage" where
  "exec (AddBook book) e s = (let (b, s') = addBook book e s in (NewBook b, s'))"
| "exec (AddStudent student) e s = (let (st, s') = addStudent student e s in (NewStudent st, s'))"
| "exec (IssueBook bookId' studentId') e s =
     (let (r, s') = issueBook bookId' studentId' e s in (Issued r, s'))"
| "exec (ReturnBook transactionId) e s =
     (let (r, s') = returnBook transactionId e s in (Returned r, s'))"
| "exec (DeleteBook i) e s = (Void, deleteBook i s)"
| "exec (DeleteStudent i) e s = (Void, deleteStudent i s)"

text \<open>A call has failed when it returns an outcome whose \<open>success\<close> flag is false.\<close>

fun failed :: "response \<Rightarrow> bool" where
  "failed (Issued r) = (\<not> success r)"
| "failed (Returned r) = (\<not> success r)"
| "failed _ = False"

fun run :: "(op \<times> env) list \<Rightarrow> storage \<Rightarrow> storage" where
  "run [] s = s"
| "run ((c, e) # cs) s = run cs (snd (exec c e s))"

text \<open>
  \<open>crypto.randomUUID()\<close> returns an identifier that is not in use. For the identifier of
  a new Book that means: no Book has it and no Transaction refers to it.
\<close>

fun uuid_unused :: "op \<Rightarrow> env \<Rightarrow> storage \<Rightarrow> bool" where
  "uuid_unused (AddBook book) e s =
     (randomUUID e \<notin> set (map id_Book (books s)) \<and>
      randomUUID e \<notin> set (map bookId (transactions s)))"
| "uuid_unused _ e s = True"

fun uuids_unused :: "(op \<times> env) list \<Rightarrow> storage \<Rightarrow> bool" where
  "uuids_unused [] s = True"
| "uuids_unused ((c, e) # cs) s = (uuid_unused c e s \<and> uuids_unused cs (snd (exec c e s)))"

section \<open>Consistency of the storage\<close>

definition issuedCount :: "string \<Rightarrow> Transaction list \<Rightarrow> nat" where
  "issuedCount bid ts = length (filter (\<lambda>t. bookId t = bid \<and> status t = ISSUED) ts)"

definition conserved :: "storage \<Rightarrow> bool" where
  "conserved s =
     (\<forall>b \<in> set (books s).
        availableCopies b = totalCopies b - int (issuedCount (id_Book b) (transactions s)))"

text \<open>A consistent state: the ids of the Books are unique and every count is conserved.\<close>

definition consistent :: "storage \<Rightarrow> bool" where
  "consistent s = (distinct (map id_Book (books s)) \<and> conserved s)"

text \<open>
  The counts of a state, and the counts that a sequence of calls brings in, for which
  \<open>--\<close> and \<open>++\<close> are exact: the doubles up to \<open>2^53 = 9007199254740992\<close>.
\<close>

definition counts_exact :: "storage \<Rightarrow> bool" where
  "counts_exact s =
     (\<forall>b \<in> set (books s).
        - 9007199254740992 \<le> availableCopies b \<and> totalCopies b \<le> 9007199254740992)"

fun copies_exact :: "op \<Rightarrow> bool" where
  "copies_exact (AddBook book) = (\<bar>totalCopies book\<bar> \<le> 9007199254740992)"
| "copies_exact _ = True"

fun calls_exact :: "(op \<times> env) list \<Rightarrow> bool" where
  "calls_exact [] = True"
| "calls_exact ((c, e) # cs) = (copies_exact c \<and> calls_exact cs)"

section \<open>Example states\<close>

text \<open>Concrete values at which the theorems below are instantiated.\<close>

definition book1 :: Book where
  "book1 = \<lparr>id_Book = ''b1'', title = ''Clean Code'', author = ''Robert C. Martin'',
            isbn = ''9780132350884'', category = ''Software Engineering'',
            totalCopies = 1, availableCopies = 1, addedAt = 0\<rparr>"

definition student1 :: Student where
  "student1 = \<lparr>id_Student = ''s1'', name = ''John Doe'', rollNo = ''CS101'',
               department = ''Computer Science'', email = ''john@college.edu'', joinedAt = 0\<rparr>"

definition loan1 :: Transaction where
  "loan1 = \<lparr>id_Transaction = ''t1'', bookId = ''b1'', studentId = ''s1'', issueDate = 0,
            dueDate = 604800000, returnDate = None, status = ISSUED, fine = 0\<rparr>"

definition env1 :: env where
  "env1 = \<lparr>randomUUID = ''u1'', date_new = 694800000, date_now = 694800000\<rparr>"

definition storage_lent :: storage where
  "storage_lent = \<lparr>books = [book1\<lparr>availableCopies := 0\<rparr>], students = [student1],
                   transactions = [loan1]\<rparr>"

definition storage_dangling :: storage where
  "storage_dangling = \<lparr>books = [], students = [student1], transactions = [loan1]\<rparr>"

definition env_tick :: env where
  "env_tick = \<lparr>randomUUID = ''t2'', date_new = 1000, date_now = 1001\<rparr>"

definition storage_fresh :: storage where
  "storage_fresh = \<lparr>books = [book1], students = [], transactions = []\<rparr>"

definition storage_over :: storage where
  "storage_over = \<lparr>books = [book1], students = [student1], transactions = [loan1]\<rparr>"

definition env2 :: env where
  "env2 = \<lparr>randomUUID = ''u2'', date_new = 694800001, date_now = 694800002\<rparr>"

definition loan_back :: Transaction where
  "loan_back = \<lparr>id_Transaction = ''t0'', bookId = ''b1'', studentId = ''s1'', issueDate = 0,
                dueDate = 604800000, returnDate = Some 1000, status = RETURNED, fine = 0\<rparr>"

definition storage_back :: storage where
  "storage_back = \<lparr>books = [book1\<lparr>availableCopies := 0\<rparr>], students = [student1],
                   transactions = [loan1, loan_back]\<rparr>"

definition calls2 :: "(op \<times> env) list" where
  "calls2 = [(ReturnBook ''t0'', env1), (ReturnBook ''t1'', env1), (IssueBook ''b1'' ''s1'', env2)]"

definition calls1 :: "(op \<times> env) list" where
  "calls1 = [(IssueBook ''b1'' ''s1'', env1), (AddBook book1, env2),
             (ReturnBook ''u1'', env2), (DeleteBook ''b1'', env2)]"

definition book_big :: Book where
  "book_big = book1\<lparr>totalCopies := 9007199254740994\<rparr>"

definition storage_empty :: storage where
  "storage_empty = \<lparr>books = [], students = [student1], transactions = []\<rparr>"

definition calls_big :: "(op \<times> env) list" where
  "calls_big = [(AddBook book_big, env1), (IssueBook ''u1'' ''s1'', env2), (ReturnBook ''u2'', env2)]"

definition storage_big :: storage where
  "storage_big = \<lparr>books = [book_big\<lparr>availableCopies := 9007199254740994\<rparr>],
                  students = [student1], transactions = []\<rparr>"

section \<open>Auxiliary facts\<close>

lemma findIndex_SomeD:
  "findIndex P xs = Some i \<Longrightarrow> i < length xs \<and> P (xs ! i) \<and> (\<forall>j<i. \<not> P (xs ! j))"
proof (induction xs arbitrary: i)
  case Nil
  then show ?case by simp
next
  case (Cons x xs)
  show ?case
  proof (cases "P x")
    case True
    with Cons.prems show ?thesis by simp
  next
    case False
    with Cons.prems obtain k where k: "findIndex P xs = Some k" "i = Suc k"
      by auto
    from Cons.IH [OF k(1)] False k(2) show ?thesis
      by (auto simp: nth_Cons split: nat.splits)
  qed
qed

lemma findIndex_None_iff: "findIndex P xs = None \<longleftrightarrow> (\<forall>x\<in>set xs. \<not> P x)"
  by (induction xs) auto

lemma findIndex_first:
  "i < length xs \<Longrightarrow> P (xs ! i) \<Longrightarrow> \<forall>j<i. \<not> P (xs ! j) \<Longrightarrow> findIndex P xs = Some i"
proof (induction xs arbitrary: i)
  case Nil
  then show ?case by simp
next
  case (Cons x xs)
  show ?case
  proof (cases i)
    case 0
    with Cons.prems show ?thesis by simp
  next
    case (Suc k)
    with Cons.prems have "\<not> P x" by auto
    moreover from Cons.prems Suc have "findIndex P xs = Some k"
      by (intro Cons.IH) auto
    ultimately show ?thesis using Suc by simp
  qed
qed

lemma status_not_RETURNED: "status t \<noteq> RETURNED \<longleftrightarrow> status t = ISSUED"
  by (cases "status t") simp_all

text \<open>Rounding changes no integer up to \<open>2^53\<close> in absolute value.\<close>

lemma ulp_small: "n < 9007199254740992 \<Longrightarrow> ulp n = 1"
  by (simp add: ulp.simps)

lemma ulp_2_53: "ulp 9007199254740992 = 2"
  by (simp add: ulp.simps [of 9007199254740992] ulp_small)

lemma to_double_exact [simp]:
  assumes "\<bar>x\<bar> \<le> 9007199254740992"
  shows "to_double x = x"
proof (cases "\<bar>x\<bar> < 9007199254740992")
  case True
  then have "ulp (nat \<bar>x\<bar>) = 1" by (intro ulp_small) simp
  then show ?thesis by (simp add: to_double_def)
next
  case False
  with assms have "\<bar>x\<bar> = 9007199254740992" by simp
  then have "nat \<bar>x\<bar> = 9007199254740992" by simp
  then have u: "ulp (nat \<bar>x\<bar>) = 2" by (simp only: ulp_2_53)
  from \<open>\<bar>x\<bar> = 9007199254740992\<close> have "x = 9007199254740992 \<or> x = - 9007199254740992"
    by linarith
  then show ?thesis by (auto simp: to_double_def u)
qed

lemma to_double_2_53_plus_1: "to_double 9007199254740993 = 9007199254740992"
proof -
  have "ulp (nat \<bar>9007199254740993\<bar>) = 2"
    by (simp add: ulp.simps [of 9007199254740993] ulp_small)
  then show ?thesis by (simp add: to_double_def)
qed

lemma ceiling_days: "\<lceil>real_of_int d / 86400000\<rceil> = - ((- d) div 86400000)"
proof -
  have "real_of_int d / 86400000 = real_of_int d / real_of_int 86400000" by simp
  then show ?thesis by (simp only: ceiling_divide_eq_div)
qed

lemma fine_calc:
  "(if ret > due
    then let diffTime = \<bar>ret - due\<bar>;
             diffDays = \<lceil>real_of_int diffTime / (1000 * 60 * 60 * 24)\<rceil>
         in diffDays * 1
    else 0) = (if ret \<le> due then 0 else - ((due - ret) div 86400000))"
proof (cases "ret > due")
  case True
  have n: "(1000 * 60 * 60 * 24 :: real) = 86400000" by simp
  from True have a: "\<bar>ret - due\<bar> = ret - due" by simp
  show ?thesis unfolding Let_def n a ceiling_days using True by simp
next
  case False
  then show ?thesis by simp
qed

lemma returnBook_issued:
  assumes "findIndex (\<lambda>t. id_Transaction t = tid) (transactions s) = Some i"
    and "status (transactions s ! i) = ISSUED"
  shows "returnBook tid e s =
    (let txn = transactions s ! i;
         f = (if date_new e \<le> dueDate txn then 0 else - ((dueDate txn - date_new e) div 86400000))
     in (\<lparr>success = True, message = ''Book returned. Fine: $'' @ string_of_int f\<rparr>,
         s\<lparr>books := (case findIndex (\<lambda>b. id_Book b = bookId txn) (books s) of
                       None \<Rightarrow> books s
                     | Some j \<Rightarrow> (books s)[j := (books s ! j)
                         \<lparr>availableCopies := to_double (availableCopies (books s ! j) + 1)\<rparr>]),
           transactions := (transactions s)[i := txn\<lparr>returnDate := Some (date_new e),
                                                   status := RETURNED, fine := f\<rparr>]\<rparr>))"
  unfolding returnBook_def fine_calc using assms by (simp add: Let_def)

lemma issueBook_available:
  assumes "findIndex (\<lambda>b. id_Book b = bid) (books s) = Some i"
    and "0 < availableCopies (books s ! i)"
  shows "issueBook bid sid e s =
    (let txn = \<lparr>id_Transaction = randomUUID e, bookId = bid, studentId = sid,
                issueDate = date_new e, dueDate = date_now e + 604800000,
                returnDate = None, status = ISSUED, fine = 0\<rparr>
     in (\<lparr>success = True, message = ''Book issued successfully'', transaction = Some txn\<rparr>,
         s\<lparr>books := (books s)[i := (books s ! i)
                         \<lparr>availableCopies := to_double (availableCopies (books s ! i) - 1)\<rparr>],
           transactions := transactions s @ [txn]\<rparr>))"
  using assms by (simp add: issueBook_def Let_def)

text \<open>What a call, and a sequence of calls, does to an existing Loan.\<close>

lemma returnBook_transactions:
  assumes "j < length (transactions s)"
  shows "j < length (transactions (snd (returnBook tid e s))) \<and>
    id_Transaction (transactions (snd (returnBook tid e s)) ! j) = id_Transaction (transactions s ! j) \<and>
    (status (transactions s ! j) = RETURNED \<longrightarrow>
       transactions (snd (returnBook tid e s)) ! j = transactions s ! j)"
proof (cases "findIndex (\<lambda>t. id_Transaction t = tid) (transactions s)")
  case None
  then show ?thesis using assms by (simp add: returnBook_def)
next
  case (Some k)
  show ?thesis
  proof (cases "status (transactions s ! k) = RETURNED")
    case True
    with Some show ?thesis using assms by (simp add: returnBook_def)
  next
    case False
    then have "status (transactions s ! k) = ISSUED" by (simp add: status_not_RETURNED)
    note r = returnBook_issued [OF Some this, of e]
    show ?thesis
      using False assms by (cases "j = k") (simp_all add: r Let_def)
  qed
qed

lemma issueBook_transactions:
  assumes "j < length (transactions s)"
  shows "j < length (transactions (snd (issueBook bid sid e s))) \<and>
    transactions (snd (issueBook bid sid e s)) ! j = transactions s ! j"
  using assms by (simp add: issueBook_def Let_def nth_append split: option.splits)

lemma exec_transactions:
  assumes "j < length (transactions s)"
  shows "j < length (transactions (snd (exec c e s))) \<and>
    id_Transaction (transactions (snd (exec c e s)) ! j) = id_Transaction (transactions s ! j) \<and>
    (status (transactions s ! j) = RETURNED \<longrightarrow>
       transactions (snd (exec c e s)) ! j = transactions s ! j)"
proof (cases c)
  case (AddBook b)
  then show ?thesis using assms by (simp add: addBook_def Let_def)
next
  case (AddStudent st)
  then show ?thesis using assms by (simp add: addStudent_def Let_def)
next
  case (IssueBook bid sid)
  then show ?thesis using issueBook_transactions [OF assms, of bid sid e]
    by (simp add: split_beta)
next
  case (ReturnBook tid)
  then show ?thesis using returnBook_transactions [OF assms, of tid e]
    by (simp add: split_beta)
next
  case (DeleteBook i)
  then show ?thesis using assms by (simp add: deleteBook_def)
next
  case (DeleteStudent i)
  then show ?thesis using assms by (simp add: deleteStudent_def)
qed

lemma run_transactions:
  "j < length (transactions s) \<Longrightarrow>
     j < length (transactions (run cs s)) \<and>
     id_Transaction (transactions (run cs s) ! j) = id_Transaction (transactions s ! j) \<and>
     (status (transactions s ! j) = RETURNED \<longrightarrow> transactions (run cs s) ! j = transactions s ! j)"
proof (induction cs arbitrary: s)
  case Nil
  then show ?case by simp
next
  case (Cons ce cs)
  obtain c e where ce: "ce = (c, e)" by (cases ce)
  let ?s = "snd (exec c e s)"
  from exec_transactions [OF Cons.prems, of c e]
  have 1: "j < length (transactions ?s)"
    and 2: "id_Transaction (transactions ?s ! j) = id_Transaction (transactions s ! j)"
    and 3: "status (transactions s ! j) = RETURNED \<longrightarrow> transactions ?s ! j = transactions s ! j"
    by simp_all
  from Cons.IH [OF 1] 2 3 show ?case
    by (auto simp: ce)
qed

text \<open>Counting the ISSUED Loans of a Book.\<close>

lemma issuedCount_append:
  "issuedCount b (ts @ [t]) = issuedCount b ts + (if bookId t = b \<and> status t = ISSUED then 1 else 0)"
  by (simp add: issuedCount_def)

lemma issuedCount_unreferenced: "b \<notin> set (map bookId ts) \<Longrightarrow> issuedCount b ts = 0"
  by (induction ts) (auto simp: issuedCount_def)

lemma issuedCount_returned:
  "k < length ts \<Longrightarrow> status (ts ! k) = ISSUED \<Longrightarrow>
     issuedCount b (ts[k := (ts ! k)\<lparr>returnDate := r, status := RETURNED, fine := f\<rparr>]) +
       (if bookId (ts ! k) = b then 1 else 0) = issuedCount b ts"
proof (induction ts arbitrary: k)
  case Nil
  then show ?case by simp
next
  case (Cons t ts)
  show ?case
  proof (cases k)
    case 0
    with Cons.prems show ?thesis by (simp add: issuedCount_def)
  next
    case (Suc n)
    with Cons.prems have "n < length ts" "status (ts ! n) = ISSUED" by simp_all
    from Cons.IH [OF this] Suc show ?thesis
      by (auto simp: issuedCount_def split: if_splits)
  qed
qed

text \<open>Every call keeps a consistent storage consistent.\<close>

lemma conserved_nth:
  "conserved s \<longleftrightarrow>
     (\<forall>j<length (books s). availableCopies (books s ! j) =
        totalCopies (books s ! j) - int (issuedCount (id_Book (books s ! j)) (transactions s)))"
  by (simp add: conserved_def all_set_conv_all_nth)

lemma distinct_ids_nth:
  assumes "distinct (map id_Book bs)" and "i < length bs" and "j < length bs"
    and "id_Book (bs ! i) = id_Book (bs ! j)"
  shows "i = j"
proof -
  from assms(2,3) have "i < length (map id_Book bs)" "j < length (map id_Book bs)"
    by simp_all
  from nth_eq_iff_index_eq [OF assms(1) this] assms(2-4) show ?thesis by simp
qed

lemma map_id_Book_update:
  "map id_Book (bs[i := (bs ! i)\<lparr>availableCopies := v\<rparr>]) = map id_Book bs"
  by (cases "i < length bs") (simp_all add: map_update list_update_same_conv list_update_beyond not_less)

lemma counts_exact_nth:
  "counts_exact s \<longleftrightarrow>
     (\<forall>j<length (books s). - 9007199254740992 \<le> availableCopies (books s ! j) \<and>
        totalCopies (books s ! j) \<le> 9007199254740992)"
  by (simp add: counts_exact_def all_set_conv_all_nth)

lemma addBook_consistent:
  assumes "consistent s" and "randomUUID e \<notin> set (map id_Book (books s))"
    and "randomUUID e \<notin> set (map bookId (transactions s))"
  shows "consistent (snd (addBook book e s))"
  using assms issuedCount_unreferenced [OF assms(3)]
  by (simp add: consistent_def conserved_def addBook_def Let_def)

lemma addBook_counts_exact:
  "counts_exact s \<Longrightarrow> \<bar>totalCopies book\<bar> \<le> 9007199254740992 \<Longrightarrow>
     counts_exact (snd (addBook book e s))"
  by (simp add: counts_exact_def addBook_def Let_def abs_le_iff)

lemma deleteBook_consistent: "consistent s \<Longrightarrow> consistent (deleteBook i s)"
  by (simp add: consistent_def conserved_def deleteBook_def distinct_map_filter)

lemma deleteBook_counts_exact: "counts_exact s \<Longrightarrow> counts_exact (deleteBook i s)"
  by (simp add: counts_exact_def deleteBook_def)

lemma issueBook_consistent:
  assumes "consistent s" and "counts_exact s"
  shows "consistent (snd (issueBook bid sid e s)) \<and> counts_exact (snd (issueBook bid sid e s))"
proof (cases "findIndex (\<lambda>b. id_Book b = bid) (books s)")
  case None
  with assms show ?thesis by (simp add: issueBook_def)
next
  case (Some i)
  show ?thesis
  proof (cases "availableCopies (books s ! i) \<le> 0")
    case True
    with Some assms show ?thesis by (simp add: issueBook_def)
  next
    case False
    then have pos: "0 < availableCopies (books s ! i)" by simp
    from findIndex_SomeD [OF Some] have i: "i < length (books s)" "id_Book (books s ! i) = bid"
      by simp_all
    from assms have d: "distinct (map id_Book (books s))" and c: "conserved s"
      by (simp_all add: consistent_def)
    from c i(1) have "availableCopies (books s ! i) \<le> totalCopies (books s ! i)"
      by (simp add: conserved_nth)
    moreover from assms(2) i(1) have "totalCopies (books s ! i) \<le> 9007199254740992"
      by (simp add: counts_exact_nth)
    ultimately have ex: "to_double (availableCopies (books s ! i) - 1) =
        availableCopies (books s ! i) - 1"
      using pos by (intro to_double_exact) simp
    note r = issueBook_available [OF Some pos, of sid e, unfolded ex]
    let ?s = "snd (issueBook bid sid e s)"
    have "distinct (map id_Book (books ?s))"
      using d by (simp add: r Let_def map_id_Book_update)
    moreover have "conserved ?s"
      unfolding conserved_nth
    proof (intro allI impI)
      fix j assume "j < length (books ?s)"
      then have j: "j < length (books s)" by (simp add: r Let_def)
      from c j have cj: "availableCopies (books s ! j) =
          totalCopies (books s ! j) - int (issuedCount (id_Book (books s ! j)) (transactions s))"
        by (simp add: conserved_nth)
      show "availableCopies (books ?s ! j) =
          totalCopies (books ?s ! j) - int (issuedCount (id_Book (books ?s ! j)) (transactions ?s))"
      proof (cases "j = i")
        case True
        with i cj show ?thesis by (simp add: r Let_def issuedCount_append)
      next
        case False
        with distinct_ids_nth [OF d j i(1)] i(2) have "id_Book (books s ! j) \<noteq> bid" by auto
        with False j cj show ?thesis by (simp add: r Let_def issuedCount_append)
      qed
    qed
    moreover have "counts_exact ?s"
      unfolding counts_exact_nth
    proof (intro allI impI)
      fix j assume "j < length (books ?s)"
      then have j: "j < length (books s)" by (simp add: r Let_def)
      with assms(2) have xj: "- 9007199254740992 \<le> availableCopies (books s ! j)"
          "totalCopies (books s ! j) \<le> 9007199254740992"
        by (simp_all add: counts_exact_nth)
      show "- 9007199254740992 \<le> availableCopies (books ?s ! j) \<and>
          totalCopies (books ?s ! j) \<le> 9007199254740992"
        using xj j pos by (cases "j = i") (simp_all add: r Let_def)
    qed
    ultimately show ?thesis by (simp add: consistent_def)
  qed
qed

lemma returnBook_consistent:
  assumes "consistent s" and "counts_exact s"
  shows "consistent (snd (returnBook tid e s)) \<and> counts_exact (snd (returnBook tid e s))"
proof (cases "findIndex (\<lambda>t. id_Transaction t = tid) (transactions s)")
  case None
  with assms show ?thesis by (simp add: returnBook_def)
next
  case (Some k)
  show ?thesis
  proof (cases "status (transactions s ! k) = RETURNED")
    case True
    with Some assms show ?thesis by (simp add: returnBook_def)
  next
    case False
    then have st: "status (transactions s ! k) = ISSUED" by (simp add: status_not_RETURNED)
    from findIndex_SomeD [OF Some] have k: "k < length (transactions s)" by simp
    from assms have d: "distinct (map id_Book (books s))" and c: "conserved s"
      by (simp_all add: consistent_def)
    note r = returnBook_issued [OF Some st, of e]
    let ?s = "snd (returnBook tid e s)"
    let ?bid = "bookId (transactions s ! k)"
    have cnt: "int (issuedCount b (transactions ?s)) =
        int (issuedCount b (transactions s)) - (if ?bid = b then 1 else 0)" for b
      using issuedCount_returned [OF k st, where b = b and r = "Some (date_new e)"
          and f = "if date_new e \<le> dueDate (transactions s ! k) then 0
           else - ((dueDate (transactions s ! k) - date_new e) div 86400000)"]
      by (simp add: r Let_def split: if_splits)
    show ?thesis
    proof (cases "findIndex (\<lambda>b. id_Book b = ?bid) (books s)")
      case None
      then have bs: "books ?s = books s" by (simp add: r Let_def)
      from None have "\<forall>b\<in>set (books s). id_Book b \<noteq> ?bid" by (simp add: findIndex_None_iff)
      with c have "conserved ?s"
        unfolding conserved_def bs by (auto simp: cnt)
      moreover from assms(2) have "counts_exact ?s"
        by (simp add: counts_exact_def bs)
      ultimately show ?thesis using d bs by (simp add: consistent_def)
    next
      case (Some i)
      from findIndex_SomeD [OF Some] have i: "i < length (books s)" "id_Book (books s ! i) = ?bid"
        by simp_all
      from c i(1) have ci: "availableCopies (books s ! i) =
          totalCopies (books s ! i) - int (issuedCount ?bid (transactions s))"
        by (simp add: conserved_nth i(2))
      from cnt [of ?bid] have "1 \<le> int (issuedCount ?bid (transactions s))"
        by simp
      with ci have "availableCopies (books s ! i) + 1 \<le> totalCopies (books s ! i)" by simp
      moreover from assms(2) i(1) have "- 9007199254740992 \<le> availableCopies (books s ! i)"
          "totalCopies (books s ! i) \<le> 9007199254740992"
        by (simp_all add: counts_exact_nth)
      ultimately have ex: "to_double (availableCopies (books s ! i) + 1) =
          availableCopies (books s ! i) + 1"
        by (intro to_double_exact) simp
      have bs: "books ?s = (books s)[i := (books s ! i)
          \<lparr>availableCopies := availableCopies (books s ! i) + 1\<rparr>]"
        using Some by (simp add: r Let_def ex)
      have "distinct (map id_Book (books ?s))"
        using d by (simp add: bs map_id_Book_update)
      moreover have "conserved ?s"
        unfolding conserved_nth
      proof (intro allI impI)
        fix j assume "j < length (books ?s)"
        then have j: "j < length (books s)" by (simp add: bs)
        from c j have cj: "availableCopies (books s ! j) =
            totalCopies (books s ! j) - int (issuedCount (id_Book (books s ! j)) (transactions s))"
          by (simp add: conserved_nth)
        show "availableCopies (books ?s ! j) =
            totalCopies (books ?s ! j) - int (issuedCount (id_Book (books ?s ! j)) (transactions ?s))"
        proof (cases "j = i")
          case True
          with i cj show ?thesis by (simp add: bs cnt)
        next
          case False
          with distinct_ids_nth [OF d j i(1)] i(2) have "id_Book (books s ! j) \<noteq> ?bid" by auto
          with False j cj show ?thesis by (simp add: bs cnt)
        qed
      qed
      moreover have "counts_exact ?s"
        unfolding counts_exact_nth
      proof (intro allI impI)
        fix j assume "j < length (books ?s)"
        then have j: "j < length (books s)" by (simp add: bs)
        with assms(2) have xj: "- 9007199254740992 \<le> availableCopies (books s ! j)"
            "totalCopies (books s ! j) \<le> 9007199254740992"
          by (simp_all add: counts_exact_nth)
        show "- 9007199254740992 \<le> availableCopies (books ?s ! j) \<and>
            totalCopies (books ?s ! j) \<le> 9007199254740992"
          using xj j by (cases "j = i") (simp_all add: bs)
      qed
      ultimately show ?thesis by (simp add: consistent_def)
    qed
  qed
qed

lemma exec_consistent:
  assumes "consistent s" and "counts_exact s" and "copies_exact c" and "uuid_unused c e s"
  shows "consistent (snd (exec c e s)) \<and> counts_exact (snd (exec c e s))"
proof (cases c)
  case (AddBook b)
  with assms addBook_consistent [of s e b] addBook_counts_exact [of s b e] show ?thesis
    by (simp add: split_beta)
next
  case (AddStudent st)
  with assms show ?thesis
    by (simp add: addStudent_def Let_def consistent_def conserved_def counts_exact_def)
next
  case (IssueBook bid sid)
  with issueBook_consistent [OF assms(1,2), of bid sid e] show ?thesis by (simp add: split_beta)
next
  case (ReturnBook tid)
  with returnBook_consistent [OF assms(1,2), of tid e] show ?thesis by (simp add: split_beta)
next
  case (DeleteBook i)
  with deleteBook_consistent [OF assms(1), of i] deleteBook_counts_exact [OF assms(2), of i]
  show ?thesis by simp
next
  case (DeleteStudent i)
  with assms show ?thesis
    by (simp add: deleteStudent_def consistent_def conserved_def counts_exact_def)
qed

lemma run_consistent:
  "consistent s \<Longrightarrow> counts_exact s \<Longrightarrow> calls_exact cs \<Longrightarrow> uuids_unused cs s \<Longrightarrow>
     consistent (run cs s)"
proof (induction cs arbitrary: s)
  case Nil
  then show ?case by simp
next
  case (Cons ce cs)
  obtain c e where ce: "ce = (c, e)" by (cases ce)
  from Cons.prems ce have h: "copies_exact c" "calls_exact cs" "uuid_unused c e s"
      "uuids_unused cs (snd (exec c e s))"
    by simp_all
  from exec_consistent [OF Cons.prems(1,2) h(1,3)]
  have "consistent (snd (exec c e s))" "counts_exact (snd (exec c e s))" by simp_all
  from Cons.IH [OF this h(2,4)] ce show ?case by simp
qed

section \<open>Conservation of copies\<close>

text \<open>
  The claim C1 as it is written fails, because the counts are doubles. Add a Book with
  \<open>2^53 + 2\<close> copies to a consistent state, issue it and return it: the decrement stores
  \<open>2^53\<close> (the double nearest to \<open>2^53 + 1\<close>), the increment leaves \<open>2^53\<close>, and the Book
  ends with \<open>2^53\<close> available copies of \<open>2^53 + 2\<close> and no ISSUED Loan.
\<close>

theorem conservation_counterexample:
  "consistent storage_empty \<and> uuids_unused calls_big storage_empty \<and>
   map totalCopies (books (run calls_big storage_empty)) = [9007199254740994] \<and>
   map availableCopies (books (run calls_big storage_empty)) = [9007199254740992] \<and>
   map status (transactions (run calls_big storage_empty)) = [RETURNED] \<and>
   \<not> conserved (run calls_big storage_empty)"
  by (simp add: consistent_def conserved_def issuedCount_def storage_empty_def calls_big_def
      book_big_def book1_def env1_def env2_def issueBook_def addBook_def returnBook_def Let_def
      to_double_2_53_plus_1)

text \<open>
  C1 (amended). Start from a consistent state (the ids of the Books are unique, as the
  data model requires, and every Book's \<open>availableCopies\<close> is its \<open>totalCopies\<close> minus the
  number of ISSUED Loans with its id) whose counts are exact: no \<open>totalCopies\<close> above
  \<open>2^53\<close> and no \<open>availableCopies\<close> below \<open>-2^53\<close>. After any sequence of calls of \<open>addBook\<close>,
  \<open>addStudent\<close>, \<open>issueBook\<close>, \<open>returnBook\<close>, \<open>deleteBook\<close> and \<open>deleteStudent\<close>, in which
  every \<open>addBook\<close> has a \<open>totalCopies\<close> of at most \<open>2^53\<close> in absolute value and draws a UUID
  that is not in use, every Book in the storage again has \<open>availableCopies\<close> equal to
  \<open>totalCopies\<close> minus the number of ISSUED Loans with its id.
\<close>

theorem conservation:
  assumes "consistent s" and "counts_exact s" and "calls_exact cs" and "uuids_unused cs s"
  shows "\<forall>b \<in> set (books (run cs s)).
           availableCopies b =
             totalCopies b - int (issuedCount (id_Book b) (transactions (run cs s)))"
  using run_consistent [OF assms] by (simp add: consistent_def conserved_def)

theorem conservation_witness:
  "consistent storage_fresh \<and> counts_exact storage_fresh \<and> calls_exact calls1 \<and>
   uuids_unused calls1 storage_fresh \<and>
   map id_Book (books (run calls1 storage_fresh)) = [''u2''] \<and>
   map status (transactions (run calls1 storage_fresh)) = [RETURNED] \<and>
   list_all (\<lambda>b. availableCopies b =
       totalCopies b - int (issuedCount (id_Book b) (transactions (run calls1 storage_fresh))))
     (books (run calls1 storage_fresh))"
  using conservation [of storage_fresh calls1]
  by (simp add: list_all_iff consistent_def conserved_def counts_exact_def issuedCount_def
      storage_fresh_def calls1_def book1_def env1_def env2_def issueBook_def addBook_def
      returnBook_def deleteBook_def Let_def)

section \<open>Fines\<close>

text \<open>
  C2. Timestamps are in milliseconds, so a day is 86400000. When \<open>returnBook\<close> returns a
  Loan that is ISSUED, the fine it stores is 0 if the time of the return is not after the
  due date, and otherwise 1 (the fine per day) times the ceiling of the number of days
  between the due date and the return. In particular a return at the due date costs 0,
  one second after it costs 1, and 25 hours after it costs 2.
\<close>

theorem returnBook_fine:
  assumes "findIndex (\<lambda>t. id_Transaction t = tid) (transactions s) = Some i"
    and "status (transactions s ! i) = ISSUED"
  shows "fine (transactions (snd (returnBook tid e s)) ! i) =
           (if date_new e \<le> dueDate (transactions s ! i) then 0
            else 1 * \<lceil>real_of_int (date_new e - dueDate (transactions s ! i)) / 86400000\<rceil>) \<and>
         fine (transactions (snd (returnBook tid
                 (e\<lparr>date_new := dueDate (transactions s ! i)\<rparr>) s)) ! i) = 0 \<and>
         fine (transactions (snd (returnBook tid
                 (e\<lparr>date_new := dueDate (transactions s ! i) + 1000\<rparr>) s)) ! i) = 1 \<and>
         fine (transactions (snd (returnBook tid
                 (e\<lparr>date_new := dueDate (transactions s ! i) + 25 * 60 * 60 * 1000\<rparr>) s)) ! i) = 2"
proof -
  from findIndex_SomeD [OF assms(1)] have i: "i < length (transactions s)" by simp
  show ?thesis
    unfolding ceiling_days using i by (simp add: returnBook_issued [OF assms] Let_def)
qed

theorem returnBook_fine_witness:
  "findIndex (\<lambda>t. id_Transaction t = ''t1'') (transactions storage_lent) = Some 0 \<and>
   status (transactions storage_lent ! 0) = ISSUED \<and>
   fine (transactions (snd (returnBook ''t1'' env1 storage_lent)) ! 0) = 2"
  using returnBook_fine [of "''t1''" storage_lent 0 env1]
  by (simp add: storage_lent_def loan1_def env1_def)

section \<open>Issuing\<close>

text \<open>
  C3. If the Book that \<open>bookId\<close> identifies (the first Book with that id) has
  \<open>availableCopies \<le> 0\<close>, \<open>issueBook\<close> returns \<open>success = false\<close> with the message
  \<open>Book not available\<close>, without a transaction, and the storage is unchanged: no Loan is
  created and no Book is changed.
\<close>

theorem issueBook_unavailable:
  assumes "findIndex (\<lambda>b. id_Book b = bid) (books s) = Some i"
    and "availableCopies (books s ! i) \<le> 0"
  shows "issueBook bid sid e s =
           (\<lparr>success = False, message = ''Book not available'', transaction = None\<rparr>, s)"
  using assms by (simp add: issueBook_def)

theorem issueBook_unavailable_witness:
  "findIndex (\<lambda>b. id_Book b = ''b1'') (books storage_lent) = Some 0 \<and>
   availableCopies (books storage_lent ! 0) \<le> 0 \<and>
   issueBook ''b1'' ''s1'' env1 storage_lent =
     (\<lparr>success = False, message = ''Book not available'', transaction = None\<rparr>, storage_lent)"
  using issueBook_unavailable [of "''b1''" storage_lent 0 "''s1''" env1]
  by (simp add: storage_lent_def book1_def)

text \<open>
  The claim C9 as it is written fails in two places. \<open>issueDate\<close> comes from \<open>new Date()\<close>
  and \<open>dueDate\<close> from a later \<open>Date.now()\<close>: when the clock advances by a millisecond
  between the two readings, the due date is 7 days and one millisecond after the issue
  date. And the decrement is a subtraction of doubles: from \<open>2^53 + 2\<close> available copies it
  stores \<open>2^53\<close>, two less.
\<close>

theorem issueBook_post_counterexample:
  "map id_Book (books storage_fresh) = [''b1''] \<and>
   map availableCopies (books storage_fresh) = [1] \<and>
   transaction (fst (issueBook ''b1'' ''s1'' env_tick storage_fresh)) =
     Some \<lparr>id_Transaction = ''t2'', bookId = ''b1'', studentId = ''s1'', issueDate = 1000,
           dueDate = 604801001, returnDate = None, status = ISSUED, fine = 0\<rparr> \<and>
   dueDate (the (transaction (fst (issueBook ''b1'' ''s1'' env_tick storage_fresh)))) \<noteq>
     issueDate (the (transaction (fst (issueBook ''b1'' ''s1'' env_tick storage_fresh)))) +
       7 * 24 * 60 * 60 * 1000 \<and>
   map id_Book (books storage_big) = [''b1''] \<and>
   map availableCopies (books storage_big) = [9007199254740994] \<and>
   success (fst (issueBook ''b1'' ''s1'' env1 storage_big)) \<and>
   map availableCopies (books (snd (issueBook ''b1'' ''s1'' env1 storage_big))) =
     [9007199254740992]"
  by (simp add: issueBook_def storage_fresh_def storage_big_def book_big_def book1_def
      env_tick_def env1_def Let_def to_double_2_53_plus_1)

text \<open>
  C9 (amended). If the Book that \<open>bookId\<close> identifies has \<open>availableCopies > 0\<close>,
  \<open>issueBook\<close> succeeds, returns the new Loan and appends exactly that Loan to the
  transactions; the Loan has status ISSUED, fine 0, no return date, the given book and
  student ids, \<open>issueDate\<close> the reading of \<open>new Date()\<close> and \<open>dueDate\<close> the reading of
  \<open>Date.now()\<close> plus 7 days, which is \<open>issueDate\<close> + 7 days when the two readings agree.
  The Book's \<open>availableCopies\<close> becomes the double nearest to \<open>availableCopies - 1\<close>, which
  is a decrement by exactly 1 when \<open>availableCopies\<close> is at most \<open>2^53\<close>; every other Book
  and every existing Loan is unchanged.
\<close>

theorem issueBook_post:
  assumes "findIndex (\<lambda>b. id_Book b = bid) (books s) = Some i"
    and "0 < availableCopies (books s ! i)"
  shows "success (fst (issueBook bid sid e s)) \<and>
    (\<exists>t. transaction (fst (issueBook bid sid e s)) = Some t \<and>
         transactions (snd (issueBook bid sid e s)) = transactions s @ [t] \<and>
         status t = ISSUED \<and> fine t = 0 \<and> returnDate t = None \<and>
         bookId t = bid \<and> studentId t = sid \<and> id_Transaction t = randomUUID e \<and>
         issueDate t = date_new e \<and>
         dueDate t = date_now e + 7 * 24 * 60 * 60 * 1000 \<and>
         (date_now e = date_new e \<longrightarrow> dueDate t = issueDate t + 7 * 24 * 60 * 60 * 1000)) \<and>
    length (books (snd (issueBook bid sid e s))) = length (books s) \<and>
    books (snd (issueBook bid sid e s)) ! i =
      (books s ! i)\<lparr>availableCopies := to_double (availableCopies (books s ! i) - 1)\<rparr> \<and>
    (availableCopies (books s ! i) \<le> 9007199254740992 \<longrightarrow>
       books (snd (issueBook bid sid e s)) ! i =
         (books s ! i)\<lparr>availableCopies := availableCopies (books s ! i) - 1\<rparr>) \<and>
    (\<forall>j < length (books s). j \<noteq> i \<longrightarrow> books (snd (issueBook bid sid e s)) ! j = books s ! j) \<and>
    students (snd (issueBook bid sid e s)) = students s"
proof -
  from findIndex_SomeD [OF assms(1)] have i: "i < length (books s)" by simp
  have ex: "to_double (availableCopies (books s ! i) - 1) = availableCopies (books s ! i) - 1"
    if "availableCopies (books s ! i) \<le> 9007199254740992"
    using that assms(2) by (intro to_double_exact) simp
  show ?thesis
    using i ex by (simp add: issueBook_available [OF assms] Let_def)
qed

theorem issueBook_post_witness:
  "findIndex (\<lambda>b. id_Book b = ''b1'') (books storage_fresh) = Some 0 \<and>
   0 < availableCopies (books storage_fresh ! 0) \<and>
   availableCopies (books storage_fresh ! 0) \<le> 9007199254740992 \<and>
   date_now env1 = date_new env1 \<and>
   success (fst (issueBook ''b1'' ''s1'' env1 storage_fresh)) \<and>
   length (books (snd (issueBook ''b1'' ''s1'' env1 storage_fresh))) = 1 \<and>
   availableCopies (books (snd (issueBook ''b1'' ''s1'' env1 storage_fresh)) ! 0) = 0 \<and>
   students (snd (issueBook ''b1'' ''s1'' env1 storage_fresh)) = []"
  using issueBook_post [of "''b1''" storage_fresh 0 "''s1''" env1]
  by (simp add: storage_fresh_def book1_def env1_def)

text \<open>
  The claim C5 as it is written fails: \<open>issueBook\<close> never reads the students, and issues
  the Book to a student id that no Student has.
\<close>

theorem issueBook_member_counterexample:
  "students storage_fresh = [] \<and>
   map id_Book (books storage_fresh) = [''b1''] \<and>
   map availableCopies (books storage_fresh) = [1] \<and>
   success (fst (issueBook ''b1'' ''s1'' env1 storage_fresh)) \<and>
   message (fst (issueBook ''b1'' ''s1'' env1 storage_fresh)) = ''Book issued successfully'' \<and>
   transactions (snd (issueBook ''b1'' ''s1'' env1 storage_fresh)) =
     [\<lparr>id_Transaction = ''u1'', bookId = ''b1'', studentId = ''s1'', issueDate = 694800000,
       dueDate = 1299600000, returnDate = None, status = ISSUED, fine = 0\<rparr>]"
  by (simp add: issueBook_def storage_fresh_def book1_def env1_def Let_def)

text \<open>
  C5 (amended). If the Book exists with \<open>availableCopies > 0\<close> and no Student has the given
  id, \<open>issueBook\<close> succeeds with the message \<open>Book issued successfully\<close> and appends one
  ISSUED Loan that carries the given student id.
\<close>

theorem issueBook_unknown_member:
  assumes "findIndex (\<lambda>b. id_Book b = bid) (books s) = Some i"
    and "0 < availableCopies (books s ! i)"
    and "\<forall>st \<in> set (students s). id_Student st \<noteq> sid"
  shows "success (fst (issueBook bid sid e s)) \<and>
    message (fst (issueBook bid sid e s)) = ''Book issued successfully'' \<and>
    (\<exists>t. transaction (fst (issueBook bid sid e s)) = Some t \<and> studentId t = sid \<and>
         status t = ISSUED \<and>
         transactions (snd (issueBook bid sid e s)) = transactions s @ [t])"
  by (simp add: issueBook_available [OF assms(1,2)] Let_def)

theorem issueBook_unknown_member_witness:
  "findIndex (\<lambda>b. id_Book b = ''b1'') (books storage_fresh) = Some 0 \<and>
   0 < availableCopies (books storage_fresh ! 0) \<and>
   students storage_fresh = [] \<and>
   success (fst (issueBook ''b1'' ''s1'' env1 storage_fresh)) \<and>
   message (fst (issueBook ''b1'' ''s1'' env1 storage_fresh)) = ''Book issued successfully''"
  using issueBook_unknown_member [of "''b1''" storage_fresh 0 "''s1''" env1]
  by (simp add: storage_fresh_def book1_def)

section \<open>Returning\<close>

text \<open>
  C10. If the Loan that \<open>loanId\<close> identifies is ISSUED and no Book has the Loan's
  \<open>bookId\<close>, \<open>returnBook\<close> still reports success, marks the Loan RETURNED with the
  return date and the computed fine, and leaves the Books (and the Students) unchanged.
\<close>

theorem returnBook_dangling:
  assumes "findIndex (\<lambda>t. id_Transaction t = tid) (transactions s) = Some i"
    and "status (transactions s ! i) = ISSUED"
    and "\<forall>b \<in> set (books s). id_Book b \<noteq> bookId (transactions s ! i)"
  shows "success (fst (returnBook tid e s)) \<and>
         books (snd (returnBook tid e s)) = books s \<and>
         students (snd (returnBook tid e s)) = students s \<and>
         transactions (snd (returnBook tid e s)) =
           (transactions s)[i := (transactions s ! i)
              \<lparr>returnDate := Some (date_new e), status := RETURNED,
               fine := (if date_new e \<le> dueDate (transactions s ! i) then 0
                        else \<lceil>real_of_int (date_new e - dueDate (transactions s ! i)) / 86400000\<rceil>)\<rparr>]"
proof -
  have n: "findIndex (\<lambda>b. id_Book b = bookId (transactions s ! i)) (books s) = None"
    using assms(3) by (simp add: findIndex_None_iff)
  show ?thesis
    unfolding ceiling_days by (simp add: returnBook_issued [OF assms(1,2)] Let_def n)
qed

theorem returnBook_dangling_witness:
  "findIndex (\<lambda>t. id_Transaction t = ''t1'') (transactions storage_dangling) = Some 0 \<and>
   status (transactions storage_dangling ! 0) = ISSUED \<and>
   books storage_dangling = [] \<and>
   success (fst (returnBook ''t1'' env1 storage_dangling)) \<and>
   books (snd (returnBook ''t1'' env1 storage_dangling)) = [] \<and>
   transactions (snd (returnBook ''t1'' env1 storage_dangling)) =
     [loan1\<lparr>returnDate := Some 694800000, status := RETURNED, fine := 2\<rparr>]"
  using returnBook_dangling [of "''t1''" storage_dangling 0 env1]
  by (simp add: storage_dangling_def loan1_def env1_def)

text \<open>
  The claim C6 as it is written fails: \<open>returnBook\<close> compares nothing with \<open>totalCopies\<close>.
  With one copy owned, one available and an ISSUED Loan on the Book, the return succeeds
  and the Book has two available copies.
\<close>

theorem returnBook_overflow_counterexample:
  "map totalCopies (books storage_over) = [1] \<and>
   map availableCopies (books storage_over) = [1] \<and>
   map id_Book (books storage_over) = [''b1''] \<and>
   transactions storage_over = [loan1] \<and>
   success (fst (returnBook ''t1'' env1 storage_over)) \<and>
   map availableCopies (books (snd (returnBook ''t1'' env1 storage_over))) = [2] \<and>
   map status (transactions (snd (returnBook ''t1'' env1 storage_over))) = [RETURNED]"
  by (simp add: returnBook_def storage_over_def book1_def loan1_def env1_def Let_def)

text \<open>
  C6 (amended). If the Loan that \<open>loanId\<close> identifies is ISSUED and its Book exists with
  \<open>availableCopies \<ge> totalCopies\<close>, \<open>returnBook\<close> succeeds and marks the Loan RETURNED; no
  outcome reports the violation. The Book's \<open>availableCopies\<close> becomes the double nearest
  to \<open>availableCopies + 1\<close>, which is an increment by 1, past \<open>totalCopies\<close>, when
  \<open>availableCopies + 1\<close> is at most \<open>2^53\<close> in absolute value.
\<close>

theorem returnBook_no_clamp:
  assumes "findIndex (\<lambda>t. id_Transaction t = tid) (transactions s) = Some i"
    and "status (transactions s ! i) = ISSUED"
    and "findIndex (\<lambda>b. id_Book b = bookId (transactions s ! i)) (books s) = Some j"
    and "totalCopies (books s ! j) \<le> availableCopies (books s ! j)"
  shows "success (fst (returnBook tid e s)) \<and>
    books (snd (returnBook tid e s)) =
      (books s)[j := (books s ! j)
         \<lparr>availableCopies := to_double (availableCopies (books s ! j) + 1)\<rparr>] \<and>
    (\<bar>availableCopies (books s ! j) + 1\<bar> \<le> 9007199254740992 \<longrightarrow>
       books (snd (returnBook tid e s)) =
         (books s)[j := (books s ! j)\<lparr>availableCopies := availableCopies (books s ! j) + 1\<rparr>] \<and>
       totalCopies (books (snd (returnBook tid e s)) ! j) <
         availableCopies (books (snd (returnBook tid e s)) ! j)) \<and>
    status (transactions (snd (returnBook tid e s)) ! i) = RETURNED \<and>
    returnDate (transactions (snd (returnBook tid e s)) ! i) = Some (date_new e)"
proof -
  from findIndex_SomeD [OF assms(1)] have i: "i < length (transactions s)" by simp
  from findIndex_SomeD [OF assms(3)] have j: "j < length (books s)" by simp
  show ?thesis
    using i j assms(3,4) by (simp add: returnBook_issued [OF assms(1,2)] Let_def)
qed

theorem returnBook_no_clamp_witness:
  "findIndex (\<lambda>t. id_Transaction t = ''t1'') (transactions storage_over) = Some 0 \<and>
   status (transactions storage_over ! 0) = ISSUED \<and>
   findIndex (\<lambda>b. id_Book b = bookId (transactions storage_over ! 0)) (books storage_over) = Some 0 \<and>
   totalCopies (books storage_over ! 0) \<le> availableCopies (books storage_over ! 0) \<and>
   \<bar>availableCopies (books storage_over ! 0) + 1\<bar> \<le> 9007199254740992 \<and>
   success (fst (returnBook ''t1'' env1 storage_over)) \<and>
   books (snd (returnBook ''t1'' env1 storage_over)) = [book1\<lparr>availableCopies := 2\<rparr>]"
  using returnBook_no_clamp [of "''t1''" storage_over 0 0 env1]
  by (simp add: storage_over_def book1_def loan1_def)

text \<open>
  C4. A Loan that is RETURNED is never changed again: after any sequence of calls of the
  service it is still at its place among the transactions, with the same status, return
  date and fine (and every other field). If it is the Loan that its id identifies (no
  earlier transaction has the same id), \<open>returnBook\<close> on its id, after any sequence of
  calls, fails with \<open>Already returned\<close> and leaves the whole storage unchanged.
\<close>

theorem returned_is_terminal:
  assumes "i < length (transactions s)"
    and "status (transactions s ! i) = RETURNED"
  shows "i < length (transactions (run cs s)) \<and>
    transactions (run cs s) ! i = transactions s ! i \<and>
    ((\<forall>j<i. id_Transaction (transactions s ! j) \<noteq> id_Transaction (transactions s ! i)) \<longrightarrow>
       returnBook (id_Transaction (transactions s ! i)) e (run cs s) =
         (\<lparr>success = False, message = ''Already returned''\<rparr>, run cs s))"
proof -
  let ?s = "run cs s"
  let ?tid = "id_Transaction (transactions s ! i)"
  from run_transactions [OF assms(1), of cs] assms(2)
  have len: "i < length (transactions ?s)" and same: "transactions ?s ! i = transactions s ! i"
    by simp_all
  have "returnBook ?tid e ?s = (\<lparr>success = False, message = ''Already returned''\<rparr>, ?s)"
    if first: "\<forall>j<i. id_Transaction (transactions s ! j) \<noteq> ?tid"
  proof -
    have "\<forall>j<i. id_Transaction (transactions ?s ! j) \<noteq> ?tid"
    proof (intro allI impI)
      fix j assume "j < i"
      with assms(1) have "j < length (transactions s)" by simp
      from run_transactions [OF this, of cs] first \<open>j < i\<close>
      show "id_Transaction (transactions ?s ! j) \<noteq> ?tid" by simp
    qed
    with len same have "findIndex (\<lambda>t. id_Transaction t = ?tid) (transactions ?s) = Some i"
      by (intro findIndex_first) simp_all
    with same assms(2) show ?thesis by (simp add: returnBook_def)
  qed
  with len same show ?thesis by blast
qed

theorem returned_is_terminal_witness:
  "1 < length (transactions storage_back) \<and>
   status (transactions storage_back ! 1) = RETURNED \<and>
   id_Transaction (transactions storage_back ! 0) \<noteq> id_Transaction (transactions storage_back ! 1) \<and>
   transactions (run calls2 storage_back) ! 1 = loan_back \<and>
   map status (transactions (run calls2 storage_back)) = [RETURNED, RETURNED, ISSUED] \<and>
   returnBook ''t0'' env2 (run calls2 storage_back) =
     (\<lparr>success = False, message = ''Already returned''\<rparr>, run calls2 storage_back)"
  using returned_is_terminal [of 1 storage_back calls2 env2]
  by (simp add: storage_back_def loan_back_def loan1_def book1_def calls2_def env1_def env2_def
      returnBook_def issueBook_def Let_def)

section \<open>The catalog\<close>

text \<open>
  The claim C7 as it is written fails: \<open>addBook\<close> checks nothing. With \<open>totalCopies = 0\<close> it
  appends a Book with no copies and returns it.
\<close>

theorem addBook_invalid_counterexample:
  "totalCopies (book1\<lparr>totalCopies := 0\<rparr>) = 0 \<and>
   books (snd (addBook (book1\<lparr>totalCopies := 0\<rparr>) env1 storage_fresh)) =
     [book1, book1\<lparr>id_Book := ''u1'', totalCopies := 0, availableCopies := 0,
                  addedAt := 694800000\<rparr>] \<and>
   \<not> failed (fst (exec (AddBook (book1\<lparr>totalCopies := 0\<rparr>)) env1 storage_fresh))"
  by (simp add: addBook_def storage_fresh_def book1_def env1_def Let_def)

text \<open>
  C7 (amended). For every input, \<open>addBook\<close> does not fail: it returns the new Book, which
  is the input with \<open>id\<close> the generated UUID, \<open>availableCopies = totalCopies\<close> and
  \<open>addedAt\<close> the current time, and appends exactly this Book after the existing Books,
  which are unchanged, as are the Students and the Loans. When the generated UUID is not
  the id of an existing Book, unique ids stay unique.
\<close>

theorem addBook_post:
  "fst (addBook book e s) =
     book\<lparr>id_Book := randomUUID e, availableCopies := totalCopies book, addedAt := date_new e\<rparr> \<and>
   availableCopies (fst (addBook book e s)) = totalCopies book \<and>
   books (snd (addBook book e s)) = books s @ [fst (addBook book e s)] \<and>
   students (snd (addBook book e s)) = students s \<and>
   transactions (snd (addBook book e s)) = transactions s \<and>
   \<not> failed (fst (exec (AddBook book) e s)) \<and>
   (distinct (map id_Book (books s)) \<and> randomUUID e \<notin> set (map id_Book (books s)) \<longrightarrow>
      distinct (map id_Book (books (snd (addBook book e s)))))"
  by (simp add: addBook_def Let_def)

theorem addBook_post_witness:
  "distinct (map id_Book (books storage_fresh)) \<and>
   randomUUID env1 \<notin> set (map id_Book (books storage_fresh)) \<and>
   map id_Book (books (snd (addBook book1 env1 storage_fresh))) = [''b1'', ''u1''] \<and>
   distinct (map id_Book (books (snd (addBook book1 env1 storage_fresh))))"
  using addBook_post [of book1 env1 storage_fresh]
  by (simp add: storage_fresh_def book1_def env1_def)

text \<open>
  The claim C8 as it is written fails: \<open>deleteBook\<close> returns nothing, for a known id and
  for an unknown one, so the call on an unknown id is not a failure.
\<close>

theorem deleteBook_unknown_counterexample:
  "map id_Book (books storage_lent) = [''b1''] \<and>
   fst (exec (DeleteBook ''b9'') env1 storage_lent) = Void \<and>
   \<not> failed (fst (exec (DeleteBook ''b9'') env1 storage_lent))"
  by (simp add: storage_lent_def book1_def)

text \<open>
  C8 (amended). \<open>deleteBook\<close> on an id that no Book has returns nothing, reports no
  failure and leaves the storage unchanged, and so does \<open>deleteStudent\<close> on an id that no
  Student has; neither of them ever changes the Loans.
\<close>

theorem delete_unknown:
  "((\<forall>b \<in> set (books s). id_Book b \<noteq> i) \<longrightarrow> exec (DeleteBook i) e s = (Void, s)) \<and>
   ((\<forall>st \<in> set (students s). id_Student st \<noteq> i) \<longrightarrow> exec (DeleteStudent i) e s = (Void, s)) \<and>
   \<not> failed (fst (exec (DeleteBook i) e s)) \<and>
   \<not> failed (fst (exec (DeleteStudent i) e s)) \<and>
   transactions (deleteBook i s) = transactions s \<and>
   transactions (deleteStudent i s) = transactions s"
proof -
  have b: "(\<forall>b \<in> set (books s). id_Book b \<noteq> i) \<Longrightarrow> filter (\<lambda>b. id_Book b \<noteq> i) (books s) = books s"
    by (simp add: filter_id_conv)
  have st: "(\<forall>st \<in> set (students s). id_Student st \<noteq> i) \<Longrightarrow>
      filter (\<lambda>st. id_Student st \<noteq> i) (students s) = students s"
    by (simp add: filter_id_conv)
  show ?thesis
    using b st by (simp add: deleteBook_def deleteStudent_def)
qed

theorem delete_unknown_witness:
  "map id_Book (books storage_lent) = [''b1''] \<and>
   map id_Student (students storage_lent) = [''s1''] \<and>
   exec (DeleteBook ''b9'') env1 storage_lent = (Void, storage_lent) \<and>
   exec (DeleteStudent ''s9'') env1 storage_lent = (Void, storage_lent) \<and>
   transactions (deleteBook ''b1'' storage_lent) = [loan1]"
  using delete_unknown [of storage_lent "''b9''" env1] delete_unknown [of storage_lent "''s9''" env1]
    delete_unknown [of storage_lent "''b1''" env1]
  by (simp add: storage_lent_def book1_def student1_def)

end
